theory Spec2Isabelle
  imports Complex_Main
begin

section \<open>Ticker Tracker: data model\<close>

text \<open>
  The program (\<^verbatim>\<open>src/ticker_tracker.py\<close>) has two operations,
  \<^verbatim>\<open>scrape_and_ingest_csv\<close> and \<^verbatim>\<open>combine_csvs_to_excel\<close>, and a main block
  that calls them. Both operations talk to the outside (HTTP, the file system, the
  console, pandas); the embedding makes that explicit: the file system and the console
  are a \<open>world\<close> value that every operation takes and returns, and what the outside
  answers (the HTTP response, a failing \<^verbatim>\<open>open\<close>, what pandas parses) is a record of
  functions \<open>env\<close>, about which nothing is assumed.
\<close>

subsection \<open>Result codes (lines 33-40)\<close>

datatype ErrorCode =
    SUCCESS
  | ERROR_HTTP_REQUEST
  | ERROR_JSON_PARSING
  | ERROR_MISSING_FIELDS
  | ERROR_IO
  | ERROR_DIRECTORY
  | ERROR_UNKNOWN

text \<open>The member name, and \<^verbatim>\<open>str\<close> of a member of a plain \<^verbatim>\<open>Enum\<close>, which is
  what an f-string field \<^verbatim>\<open>{rc}\<close> renders: the class name, a dot, the member name.\<close>

fun ErrorCode_name :: "ErrorCode \<Rightarrow> string" where
  "ErrorCode_name SUCCESS = ''SUCCESS''"
| "ErrorCode_name ERROR_HTTP_REQUEST = ''ERROR_HTTP_REQUEST''"
| "ErrorCode_name ERROR_JSON_PARSING = ''ERROR_JSON_PARSING''"
| "ErrorCode_name ERROR_MISSING_FIELDS = ''ERROR_MISSING_FIELDS''"
| "ErrorCode_name ERROR_IO = ''ERROR_IO''"
| "ErrorCode_name ERROR_DIRECTORY = ''ERROR_DIRECTORY''"
| "ErrorCode_name ERROR_UNKNOWN = ''ERROR_UNKNOWN''"

definition ErrorCode_str :: "ErrorCode \<Rightarrow> string" where
  "ErrorCode_str rc = ''ErrorCode.'' @ ErrorCode_name rc"

subsection \<open>Python values\<close>

text \<open>
  What \<^verbatim>\<open>response.json()\<close> returns: \<^verbatim>\<open>None\<close>, booleans, numbers, strings, lists and
  dictionaries. A dictionary is an association list in insertion order (Python
  dictionaries keep it); a parsed JSON object has each key once. A finite float is
  its rational value.
\<close>

datatype pyval =
    PNone
  | PBool bool
  | PInt int
  | PFloat rat
  | PStr string
  | PList "pyval list"
  | PDict "(string \<times> pyval) list"

text \<open>Truth value of an object, as \<^verbatim>\<open>not x\<close> tests it.\<close>

fun truthy :: "pyval \<Rightarrow> bool" where
  "truthy PNone = False"
| "truthy (PBool b) = b"
| "truthy (PInt i) = (i \<noteq> 0)"
| "truthy (PFloat r) = (r \<noteq> 0)"
| "truthy (PStr s) = (s \<noteq> [])"
| "truthy (PList xs) = (xs \<noteq> [])"
| "truthy (PDict kvs) = (kvs \<noteq> [])"

subsection \<open>Exceptions\<close>

text \<open>
  The exception classes the program's handlers name, and those its operations raise.
  Every one derives from \<^verbatim>\<open>Exception\<close>. \<^verbatim>\<open>IOError\<close> is Python 3's alias of
  \<^verbatim>\<open>OSError\<close>; the two pandas errors derive from \<^verbatim>\<open>ValueError\<close>. An exception
  carries its class and the text \<^verbatim>\<open>str(e)\<close>. Interrupts from outside the call
  (\<^verbatim>\<open>KeyboardInterrupt\<close>, \<^verbatim>\<open>SystemExit\<close>), which derive from \<^verbatim>\<open>BaseException\<close>
  alone, are not modelled.
\<close>

datatype exn_class =
    Exception
  | AttributeError
  | TypeError
  | ValueError
  | JSONDecodeError
  | UnicodeEncodeError
  | OSError
  | FileNotFoundError
  | PermissionError
  | IsADirectoryError
  | EmptyDataError
  | ParserError

datatype exn = Exn (exn_type: exn_class) (exn_msg: string)

fun derives_from :: "exn_class \<Rightarrow> exn_class \<Rightarrow> bool" where
  "derives_from c Exception = True"
| "derives_from c ValueError =
     (c = ValueError \<or> c = JSONDecodeError \<or> c = UnicodeEncodeError
      \<or> c = EmptyDataError \<or> c = ParserError)"
| "derives_from c OSError =
     (c = OSError \<or> c = FileNotFoundError \<or> c = PermissionError \<or> c = IsADirectoryError)"
| "derives_from c h = (c = h)"

text \<open>\<^verbatim>\<open>except h\<close> catches \<open>e\<close> when \<open>isinstance e h\<close>.\<close>

definition isinstance :: "exn \<Rightarrow> exn_class \<Rightarrow> bool" where
  "isinstance e h = derives_from (exn_type e) h"

text \<open>A call returns a value or raises.\<close>

datatype 'a outcome = Returns 'a | Raises exn

subsection \<open>Dictionary and sequence operations on values\<close>

text \<open>The messages of the exceptions that a value of the wrong type raises name the
  value's type.\<close>

definition apostrophe :: string where
  "apostrophe = [CHR 0x27]"

fun type_name :: "pyval \<Rightarrow> string" where
  "type_name PNone = ''NoneType''"
| "type_name (PBool b) = ''bool''"
| "type_name (PInt i) = ''int''"
| "type_name (PFloat r) = ''float''"
| "type_name (PStr s) = ''str''"
| "type_name (PList xs) = ''list''"
| "type_name (PDict kvs) = ''dict''"

definition no_attribute :: "pyval \<Rightarrow> string \<Rightarrow> exn" where
  "no_attribute v a =
     Exn AttributeError (apostrophe @ type_name v @ apostrophe @ '' object has no attribute ''
       @ apostrophe @ a @ apostrophe)"

definition not_reversible :: "pyval \<Rightarrow> exn" where
  "not_reversible v =
     Exn TypeError (apostrophe @ type_name v @ apostrophe @ '' object is not reversible'')"

text \<open>\<^verbatim>\<open>x.get(key, default)\<close>: only a dictionary has the method.\<close>

fun py_get :: "pyval \<Rightarrow> string \<Rightarrow> pyval \<Rightarrow> exn + pyval" where
  "py_get (PDict kvs) k d = Inr (case map_of kvs k of None \<Rightarrow> d | Some v \<Rightarrow> v)"
| "py_get v k d = Inl (no_attribute v ''get'')"

text \<open>\<^verbatim>\<open>list(x.values())\<close> and \<^verbatim>\<open>x.keys()\<close>.\<close>

fun py_values :: "pyval \<Rightarrow> exn + pyval list" where
  "py_values (PDict kvs) = Inr (map snd kvs)"
| "py_values v = Inl (no_attribute v ''values'')"

fun py_keys :: "pyval \<Rightarrow> exn + string list" where
  "py_keys (PDict kvs) = Inr (map fst kvs)"
| "py_keys v = Inl (no_attribute v ''keys'')"

text \<open>
  \<^verbatim>\<open>reversed(x)\<close>: a list backwards, a string's characters backwards, a dictionary's
  keys backwards (Python 3.8 and later); anything else is not reversible.
\<close>

fun py_reversed :: "pyval \<Rightarrow> exn + pyval list" where
  "py_reversed (PList xs) = Inr (rev xs)"
| "py_reversed (PStr s) = Inr (map (\<lambda>c. PStr [c]) (rev s))"
| "py_reversed (PDict kvs) = Inr (map (\<lambda>kv. PStr (fst kv)) (rev kvs))"
| "py_reversed v = Inl (not_reversible v)"

text \<open>The comprehension \<^verbatim>\<open>[row.get(key, "") for key in keys]\<close> (line 95), key by key.\<close>

fun row_values :: "pyval \<Rightarrow> string list \<Rightarrow> exn + pyval list" where
  "row_values row [] = Inr []"
| "row_values row (k # ks) =
     (case py_get row k (PStr '''') of
        Inl e \<Rightarrow> Inl e
      | Inr v \<Rightarrow> (case row_values row ks of Inl e \<Rightarrow> Inl e | Inr vs \<Rightarrow> Inr (v # vs)))"

subsection \<open>Paths and strings\<close>

text \<open>\<^verbatim>\<open>os.path.join\<close> and \<^verbatim>\<open>os.path.basename\<close> of two components (POSIX).\<close>

definition path_join :: "string \<Rightarrow> string \<Rightarrow> string" where
  "path_join a b =
     (if b \<noteq> [] \<and> hd b = CHR ''/'' then b
      else if a = [] \<or> last a = CHR ''/'' then a @ b
      else a @ ''/'' @ b)"

definition basename :: "string \<Rightarrow> string" where
  "basename p = rev (takeWhile (\<lambda>c. c \<noteq> CHR ''/'') (rev p))"

text \<open>
  \<^verbatim>\<open>s.replace(old, new)\<close> for a non-empty \<open>old\<close>: every occurrence, scanning from the
  left, without overlaps. (The program's only \<open>old\<close> is \<^verbatim>\<open>".csv"\<close>; with an empty
  \<open>old\<close> the text is returned as it is here.)
\<close>

function str_replace :: "string \<Rightarrow> string \<Rightarrow> string \<Rightarrow> string" where
  "str_replace old new s =
     (if old = [] \<or> s = [] then s
      else if take (length old) s = old
           then new @ str_replace old new (drop (length old) s)
      else hd s # str_replace old new (tl s))"
  by pat_completeness auto
termination
  by (relation "measure (\<lambda>(old, new, s). length s)") auto

text \<open>The format field \<^verbatim>\<open>{t:<4}\<close>: left-justified in a width of at least four.\<close>

definition ljust :: "nat \<Rightarrow> string \<Rightarrow> string" where
  "ljust n s = s @ replicate (n - length s) CHR '' ''"

text \<open>\<^verbatim>\<open>str.upper\<close> on ASCII text (a \<open>char\<close> is a byte).\<close>

definition upper_char :: "char \<Rightarrow> char" where
  "upper_char c =
     (if 97 \<le> (of_char c :: nat) \<and> (of_char c :: nat) \<le> 122
      then char_of ((of_char c :: nat) - 32) else c)"

definition upper :: "string \<Rightarrow> string" where
  "upper s = map upper_char s"

text \<open>\<^verbatim>\<open>str\<close> of a natural number, for the f-string field of the drawn random number.\<close>

function show_nat :: "nat \<Rightarrow> string" where
  "show_nat n =
     (if n < 10 then [char_of (48 + n)]
      else show_nat (n div 10) @ [char_of (48 + n mod 10)])"
  by pat_completeness auto
termination
  by (relation "measure id") auto

subsection \<open>The world: file system and console\<close>

text \<open>
  A tabular file is the sequence of records handed to \<^verbatim>\<open>csv.writer.writerow\<close>, each a
  list of field values; a workbook is its sheets in order, each a name and a grid of
  cells. A data frame, as \<^verbatim>\<open>pd.read_csv\<close> returns it, is its column labels and its
  rows. Each console line is kept with the function whose \<^verbatim>\<open>print\<close> wrote it.
  \<open>py_print\<close> is \<^verbatim>\<open>print\<close> on a console that accepts the line; a console that refuses
  lines is the subject of the section on \<open>scrape_and_ingest_csv_on\<close>.
\<close>

record dataframe =
  columns :: "pyval list"
  data_rows :: "pyval list list"

datatype file_content =
    CsvFile "pyval list list"
  | Workbook "(string \<times> pyval list list) list"
  | OtherFile string

datatype printer = Fetcher | Combiner | Orchestrator

record world =
  dirs :: "string set"
  files :: "string \<rightharpoonup> file_content"
  console :: "(printer \<times> string) list"

definition path_exists :: "world \<Rightarrow> string \<Rightarrow> bool" where
  "path_exists w p = (p \<in> dirs w \<or> files w p \<noteq> None)"

definition py_print :: "printer \<Rightarrow> string \<Rightarrow> world \<Rightarrow> world" where
  "py_print who line w = w\<lparr>console := console w @ [(who, line)]\<rparr>"

record response =
  status_code :: int
  json :: "exn + pyval"

text \<open>
  What the outside answers. \<open>requests_get url\<close> is the response or the exception of
  \<^verbatim>\<open>requests.get\<close>; \<open>json\<close> of a response is what \<^verbatim>\<open>response.json()\<close> returns or
  raises. \<open>open_fault p\<close> is the exception of \<^verbatim>\<open>open(p, "w")\<close>, if any;
  \<open>write_fault p n\<close> the exception of writing record number \<open>n\<close> to \<open>p\<close>, if any.
  \<open>parse_csv\<close> is pandas' parser on a file's content; \<open>excel_fault\<close> the exception of
  writing the workbook, if any, and \<open>excel_leftover p sheets old\<close> what is at the path \<open>p\<close>
  after such a failed write, where \<open>old\<close> was there before (the old content, nothing, or
  a workbook of the sheets written before the failure). \<open>randint i\<close> is the number
  \<^verbatim>\<open>random.randint(1, 99)\<close> draws at its \<open>i\<close>-th call.
\<close>

record env =
  requests_get :: "string \<Rightarrow> exn + response"
  open_fault :: "string \<Rightarrow> exn option"
  write_fault :: "string \<Rightarrow> nat \<Rightarrow> exn option"
  parse_csv :: "file_content \<Rightarrow> exn + dataframe"
  excel_fault :: "string \<Rightarrow> (string \<times> dataframe) list \<Rightarrow> exn option"
  excel_leftover ::
    "string \<Rightarrow> (string \<times> dataframe) list \<Rightarrow> file_content option \<Rightarrow> file_content option"
  randint :: "nat \<Rightarrow> nat"

section \<open>The fetcher and writer: \<^verbatim>\<open>scrape_and_ingest_csv\<close> (lines 43-105)\<close>

text \<open>What lines 53-83 leave behind: the header mapping and the rows, or the result
  code of an early \<^verbatim>\<open>return\<close>.\<close>

datatype fetch_result = Fetched pyval pyval | Failed ErrorCode

text \<open>Lines 71-83: the nested sections of the parsed body and the three presence checks.\<close>

definition extract_stage :: "string \<Rightarrow> pyval \<Rightarrow> world \<Rightarrow> fetch_result outcome \<times> world" where
  "extract_stage url data w =
     (case py_get data ''data'' (PDict []) of
        Inl e \<Rightarrow> (Raises e, w)
      | Inr d \<Rightarrow>
     (case py_get d ''tradesTable'' (PDict []) of
        Inl e \<Rightarrow> (Raises e, w)
      | Inr trades_table \<Rightarrow>
          if \<not> truthy trades_table
          then (Returns (Failed ERROR_MISSING_FIELDS),
                py_print Fetcher (''Error: '' @ apostrophe @ ''tradesTable'' @ apostrophe
                  @ '' not found in response data for URL: '' @ url) w)
          else
     (case py_get trades_table ''headers'' (PDict []) of
        Inl e \<Rightarrow> (Raises e, w)
      | Inr headers \<Rightarrow>
     (case py_get trades_table ''rows'' (PList []) of
        Inl e \<Rightarrow> (Raises e, w)
      | Inr rows \<Rightarrow>
          if \<not> truthy headers
          then (Returns (Failed ERROR_MISSING_FIELDS),
                py_print Fetcher (''Error: No headers found in the '' @ apostrophe
                  @ ''tradesTable'' @ apostrophe @ '' for URL: '' @ url) w)
          else if \<not> truthy rows
          then (Returns (Failed ERROR_MISSING_FIELDS),
                py_print Fetcher (''Error: No rows found in the '' @ apostrophe
                  @ ''tradesTable'' @ apostrophe @ '' for URL: '' @ url) w)
          else (Returns (Fetched headers rows), w)))))"

text \<open>Lines 53-83: the request (a bare \<^verbatim>\<open>except\<close> catches whatever it raises), the
  status check, the parse (\<^verbatim>\<open>except ValueError\<close>) and the extraction.\<close>

definition fetch_stage :: "env \<Rightarrow> string \<Rightarrow> world \<Rightarrow> fetch_result outcome \<times> world" where
  "fetch_stage env url w =
     (case requests_get env url of
        Inl e \<Rightarrow>
          (Returns (Failed ERROR_HTTP_REQUEST),
           py_print Fetcher (''Error: Failed to connect to: '' @ url) w)
      | Inr response \<Rightarrow>
          if status_code response \<noteq> 200
          then (Returns (Failed ERROR_HTTP_REQUEST),
                py_print Fetcher (''Error: Bad status_code from: '' @ url) w)
          else
            (case json response of
               Inl e \<Rightarrow>
                 if isinstance e ValueError
                 then (Returns (Failed ERROR_JSON_PARSING),
                       py_print Fetcher
                         (''Error: Failed to parse response as JSON for URL: '' @ url) w)
                 else (Raises e, w)
             | Inr data \<Rightarrow> extract_stage url data w))"

text \<open>
  \<^verbatim>\<open>writer.writerow(r)\<close> on the file at \<open>p\<close> that holds the records \<open>written\<close>: the
  record is appended, unless the write raises.
\<close>

definition writerow ::
  "env \<Rightarrow> string \<Rightarrow> pyval list list \<Rightarrow> pyval list \<Rightarrow> world \<Rightarrow> exn + pyval list list \<times> world" where
  "writerow env p written r w =
     (case write_fault env p (length written) of
        Some e \<Rightarrow> Inl e
      | None \<Rightarrow> Inr (written @ [r], w\<lparr>files := (files w)(p \<mapsto> CsvFile (written @ [r]))\<rparr>))"

text \<open>Lines 94-96: the loop over the reversed rows. It stops at the first exception.\<close>

fun write_rows ::
  "env \<Rightarrow> string \<Rightarrow> pyval \<Rightarrow> pyval list \<Rightarrow> pyval list list \<Rightarrow> world \<Rightarrow> exn option \<times> world" where
  "write_rows env p headers [] written w = (None, w)"
| "write_rows env p headers (row # rest) written w =
     (case py_keys headers of
        Inl e \<Rightarrow> (Some e, w)
      | Inr keys \<Rightarrow>
     (case row_values row keys of
        Inl e \<Rightarrow> (Some e, w)
      | Inr row_vals \<Rightarrow>
     (case writerow env p written row_vals w of
        Inl e \<Rightarrow> (Some e, w)
      | Inr (written', w') \<Rightarrow> write_rows env p headers rest written' w')))"

text \<open>Lines 91-96: \<^verbatim>\<open>open(filepath, "w")\<close> creates or empties the file, then the
  header labels and the rows are written. The result is the exception that ended the
  block, if any.\<close>

definition write_csv ::
  "env \<Rightarrow> string \<Rightarrow> pyval \<Rightarrow> pyval \<Rightarrow> world \<Rightarrow> exn option \<times> world" where
  "write_csv env filepath headers rows w =
     (case open_fault env filepath of
        Some e \<Rightarrow> (Some e, w)
      | None \<Rightarrow>
     (case py_values headers of
        Inl e \<Rightarrow> (Some e, w\<lparr>files := (files w)(filepath \<mapsto> CsvFile [])\<rparr>)
      | Inr labels \<Rightarrow>
     (case writerow env filepath [] labels (w\<lparr>files := (files w)(filepath \<mapsto> CsvFile [])\<rparr>) of
        Inl e \<Rightarrow> (Some e, w\<lparr>files := (files w)(filepath \<mapsto> CsvFile [])\<rparr>)
      | Inr (written, w1) \<Rightarrow>
     (case py_reversed rows of
        Inl e \<Rightarrow> (Some e, w1)
      | Inr rs \<Rightarrow> write_rows env filepath headers rs written w1))))"

text \<open>Lines 86-100: the directory check, the write, and \<^verbatim>\<open>except IOError\<close>.\<close>

definition write_stage ::
  "env \<Rightarrow> string \<Rightarrow> string \<Rightarrow> string \<Rightarrow> pyval \<Rightarrow> pyval \<Rightarrow> world \<Rightarrow> ErrorCode outcome \<times> world" where
  "write_stage env url child_dir t headers rows w =
     (if \<not> path_exists w child_dir
      then (Returns ERROR_DIRECTORY,
            py_print Fetcher (''Error: The specified directory '' @ apostrophe @ child_dir
              @ apostrophe @ '' does not exist.'') w)
      else
        (case write_csv env (path_join child_dir (t @ ''.csv'')) headers rows w of
           (None, w') \<Rightarrow> (Returns SUCCESS, w')
         | (Some e, w') \<Rightarrow>
             if isinstance e OSError
             then (Returns ERROR_IO,
                   py_print Fetcher
                     (''Error: Failed to write to file for URL '' @ url @ ''. '' @ exn_msg e) w')
             else (Raises e, w')))"

text \<open>The body of the outer \<^verbatim>\<open>try\<close> (lines 48-100).\<close>

definition scrape_body ::
  "env \<Rightarrow> string \<Rightarrow> string \<Rightarrow> string \<Rightarrow> world \<Rightarrow> ErrorCode outcome \<times> world" where
  "scrape_body env url child_dir t w =
     (case fetch_stage env url w of
        (Raises e, w') \<Rightarrow> (Raises e, w')
      | (Returns (Failed rc), w') \<Rightarrow> (Returns rc, w')
      | (Returns (Fetched headers rows), w') \<Rightarrow> write_stage env url child_dir t headers rows w')"

text \<open>The whole function: the body under \<^verbatim>\<open>except Exception\<close> (lines 103-105).\<close>

definition scrape_and_ingest_csv ::
  "env \<Rightarrow> string \<Rightarrow> string \<Rightarrow> string \<Rightarrow> world \<Rightarrow> ErrorCode outcome \<times> world" where
  "scrape_and_ingest_csv env url child_dir t w =
     (case scrape_body env url child_dir t w of
        (Returns rc, w') \<Rightarrow> (Returns rc, w')
      | (Raises e, w') \<Rightarrow>
          if isinstance e Exception
          then (Returns ERROR_UNKNOWN,
                py_print Fetcher (''Unexpected error for URL '' @ url @ '': '' @ exn_msg e) w')
          else (Raises e, w'))"

section \<open>The same function on a console that can refuse a line\<close>

text \<open>
  \<^verbatim>\<open>print\<close> raises when the console cannot take the line: \<^verbatim>\<open>UnicodeEncodeError\<close> for
  text the console's encoding does not have, \<^verbatim>\<open>ValueError\<close> or \<^verbatim>\<open>OSError\<close> on a closed
  or broken stream. Here the console is a parameter: \<open>con line\<close> is the exception that
  \<^verbatim>\<open>print(line)\<close> raises, if any. An exception of a \<^verbatim>\<open>print\<close> in the body or in one of
  the inner handlers (lines 56, 60, 67, 73, 79, 82, 88, 99) leaves the body of the outer
  \<^verbatim>\<open>try\<close>; an exception of the \<^verbatim>\<open>print\<close> of line 104, inside the last handler, leaves
  the function. \<open>scrape_and_ingest_csv\<close> above is this function on a console that accepts
  every line.
\<close>

text \<open>\<^verbatim>\<open>print(line); return r\<close>.\<close>

definition print_then ::
  "(string \<Rightarrow> exn option) \<Rightarrow> printer \<Rightarrow> string \<Rightarrow> 'a \<Rightarrow> world \<Rightarrow> 'a outcome \<times> world" where
  "print_then con who line r w =
     (case con line of
        Some e \<Rightarrow> (Raises e, w)
      | None \<Rightarrow> (Returns r, py_print who line w))"

definition extract_stage_on ::
  "(string \<Rightarrow> exn option) \<Rightarrow> string \<Rightarrow> pyval \<Rightarrow> world \<Rightarrow> fetch_result outcome \<times> world" where
  "extract_stage_on con url data w =
     (case py_get data ''data'' (PDict []) of
        Inl e \<Rightarrow> (Raises e, w)
      | Inr d \<Rightarrow>
     (case py_get d ''tradesTable'' (PDict []) of
        Inl e \<Rightarrow> (Raises e, w)
      | Inr trades_table \<Rightarrow>
          if \<not> truthy trades_table
          then print_then con Fetcher
                 (''Error: '' @ apostrophe @ ''tradesTable'' @ apostrophe
                    @ '' not found in response data for URL: '' @ url)
                 (Failed ERROR_MISSING_FIELDS) w
          else
     (case py_get trades_table ''headers'' (PDict []) of
        Inl e \<Rightarrow> (Raises e, w)
      | Inr headers \<Rightarrow>
     (case py_get trades_table ''rows'' (PList []) of
        Inl e \<Rightarrow> (Raises e, w)
      | Inr rows \<Rightarrow>
          if \<not> truthy headers
          then print_then con Fetcher
                 (''Error: No headers found in the '' @ apostrophe
                    @ ''tradesTable'' @ apostrophe @ '' for URL: '' @ url)
                 (Failed ERROR_MISSING_FIELDS) w
          else if \<not> truthy rows
          then print_then con Fetcher
                 (''Error: No rows found in the '' @ apostrophe
                    @ ''tradesTable'' @ apostrophe @ '' for URL: '' @ url)
                 (Failed ERROR_MISSING_FIELDS) w
          else (Returns (Fetched headers rows), w)))))"

definition fetch_stage_on ::
  "(string \<Rightarrow> exn option) \<Rightarrow> env \<Rightarrow> string \<Rightarrow> world \<Rightarrow> fetch_result outcome \<times> world" where
  "fetch_stage_on con env url w =
     (case requests_get env url of
        Inl e \<Rightarrow>
          print_then con Fetcher (''Error: Failed to connect to: '' @ url)
            (Failed ERROR_HTTP_REQUEST) w
      | Inr response \<Rightarrow>
          if status_code response \<noteq> 200
          then print_then con Fetcher (''Error: Bad status_code from: '' @ url)
                 (Failed ERROR_HTTP_REQUEST) w
          else
            (case json response of
               Inl e \<Rightarrow>
                 if isinstance e ValueError
                 then print_then con Fetcher
                        (''Error: Failed to parse response as JSON for URL: '' @ url)
                        (Failed ERROR_JSON_PARSING) w
                 else (Raises e, w)
             | Inr data \<Rightarrow> extract_stage_on con url data w))"

definition write_stage_on ::
  "(string \<Rightarrow> exn option) \<Rightarrow> env \<Rightarrow> string \<Rightarrow> string \<Rightarrow> string \<Rightarrow> pyval \<Rightarrow> pyval \<Rightarrow> world
     \<Rightarrow> ErrorCode outcome \<times> world" where
  "write_stage_on con env url child_dir t headers rows w =
     (if \<not> path_exists w child_dir
      then print_then con Fetcher
             (''Error: The specified directory '' @ apostrophe @ child_dir
                @ apostrophe @ '' does not exist.'')
             ERROR_DIRECTORY w
      else
        (case write_csv env (path_join child_dir (t @ ''.csv'')) headers rows w of
           (None, w') \<Rightarrow> (Returns SUCCESS, w')
         | (Some e, w') \<Rightarrow>
             if isinstance e OSError
             then print_then con Fetcher
                    (''Error: Failed to write to file for URL '' @ url @ ''. '' @ exn_msg e)
                    ERROR_IO w'
             else (Raises e, w')))"

definition scrape_body_on ::
  "(string \<Rightarrow> exn option) \<Rightarrow> env \<Rightarrow> string \<Rightarrow> string \<Rightarrow> string \<Rightarrow> world
     \<Rightarrow> ErrorCode outcome \<times> world" where
  "scrape_body_on con env url child_dir t w =
     (case fetch_stage_on con env url w of
        (Raises e, w') \<Rightarrow> (Raises e, w')
      | (Returns (Failed rc), w') \<Rightarrow> (Returns rc, w')
      | (Returns (Fetched headers rows), w') \<Rightarrow>
          write_stage_on con env url child_dir t headers rows w')"

text \<open>Lines 43-105 as they are: the \<^verbatim>\<open>print\<close> of line 104 has no handler around it.\<close>

definition scrape_and_ingest_csv_on ::
  "(string \<Rightarrow> exn option) \<Rightarrow> env \<Rightarrow> string \<Rightarrow> string \<Rightarrow> string \<Rightarrow> world
     \<Rightarrow> ErrorCode outcome \<times> world" where
  "scrape_and_ingest_csv_on con env url child_dir t w =
     (case scrape_body_on con env url child_dir t w of
        (Returns rc, w') \<Rightarrow> (Returns rc, w')
      | (Raises e, w') \<Rightarrow>
          if isinstance e Exception
          then print_then con Fetcher
                 (''Unexpected error for URL '' @ url @ '': '' @ exn_msg e) ERROR_UNKNOWN w'
          else (Raises e, w'))"

section \<open>The combiner: \<^verbatim>\<open>combine_csvs_to_excel\<close> (lines 108-154)\<close>

text \<open>\<^verbatim>\<open>sheets[name] = df\<close>: a present key keeps its place and takes the new value, a new
  key goes to the end.\<close>

fun dict_set :: "(string \<times> 'v) list \<Rightarrow> string \<Rightarrow> 'v \<Rightarrow> (string \<times> 'v) list" where
  "dict_set [] k v = [(k, v)]"
| "dict_set (kv # kvs) k v = (if fst kv = k then (k, v) # kvs else kv # dict_set kvs k v)"

text \<open>\<^verbatim>\<open>pd.read_csv(p)\<close>: pandas' parser on the file's content; a path with no file
  behind it raises the operating system's error, with its text.\<close>

definition pd_read_csv :: "env \<Rightarrow> world \<Rightarrow> string \<Rightarrow> exn + dataframe" where
  "pd_read_csv env w p =
     (case files w p of
        Some f \<Rightarrow> parse_csv env f
      | None \<Rightarrow>
          if p \<in> dirs w
          then Inl (Exn IsADirectoryError
                 (''[Errno 21] Is a directory: '' @ apostrophe @ p @ apostrophe))
          else Inl (Exn FileNotFoundError
                 (''[Errno 2] No such file or directory: '' @ apostrophe @ p @ apostrophe)))"

text \<open>\<^verbatim>\<open>df.to_excel(writer, sheet_name=..., index=index)\<close>: the grid of cells of the sheet,
  the column labels first; with \<open>index\<close> a leading column of row numbers.\<close>

definition to_excel :: "dataframe \<Rightarrow> bool \<Rightarrow> pyval list list" where
  "to_excel df index =
     (if index
      then (PStr '''' # columns df)
           # map (\<lambda>ir. PInt (int (fst ir)) # snd ir) (enumerate 0 (data_rows df))
      else columns df # data_rows df)"

text \<open>
  The names of the sheets in the written workbook. \<^verbatim>\<open>to_excel\<close> adds one worksheet per
  entry of \<^verbatim>\<open>sheets\<close>, in order, under the entry's key; the xlsxwriter engine gives a
  worksheet added under the empty name its default name, \<^verbatim>\<open>Sheet\<close> and the number of
  worksheets added so far, this one included.
\<close>

definition xlsx_sheet_name :: "nat \<Rightarrow> string \<Rightarrow> string" where
  "xlsx_sheet_name i name = (if name = [] then ''Sheet'' @ show_nat (Suc i) else name)"

definition xlsx_sheets :: "(string \<times> dataframe) list \<Rightarrow> (string \<times> pyval list list) list" where
  "xlsx_sheets sheets =
     map (\<lambda>is. (xlsx_sheet_name (fst is) (fst (snd is)), to_excel (snd (snd is)) False))
       (enumerate 0 sheets)"

definition sheet_name_of :: "string \<Rightarrow> string" where
  "sheet_name_of csv_file = str_replace ''.csv'' '''' (basename csv_file)"

text \<open>Lines 116-136: the loop over the candidate filenames, with its four handlers.\<close>

fun read_sheets ::
  "env \<Rightarrow> string \<Rightarrow> string list \<Rightarrow> (string \<times> dataframe) list \<Rightarrow> world
     \<Rightarrow> (string \<times> dataframe) list outcome \<times> world" where
  "read_sheets env child_dir [] sheets w = (Returns sheets, w)"
| "read_sheets env child_dir (f # fs) sheets w =
     (if \<not> path_exists w (path_join child_dir f)
      then read_sheets env child_dir fs sheets
             (py_print Combiner
                (''Error: The file '' @ path_join child_dir f @ '' does not exist.'') w)
      else
        (case pd_read_csv env w (path_join child_dir f) of
           Inr df \<Rightarrow>
             read_sheets env child_dir fs
               (dict_set sheets (sheet_name_of (path_join child_dir f)) df) w
         | Inl e \<Rightarrow>
             if isinstance e FileNotFoundError
             then read_sheets env child_dir fs sheets
                    (py_print Combiner (''File not found: '' @ path_join child_dir f) w)
             else if isinstance e EmptyDataError
             then read_sheets env child_dir fs sheets
                    (py_print Combiner
                       (''Warning: '' @ path_join child_dir f @ '' is empty.'') w)
             else if isinstance e ParserError
             then read_sheets env child_dir fs sheets
                    (py_print Combiner
                       (''Error: Failed to parse '' @ path_join child_dir f @ ''.'') w)
             else if isinstance e Exception
             then read_sheets env child_dir fs sheets
                    (py_print Combiner
                       (''An error occurred while processing '' @ path_join child_dir f
                          @ '': '' @ exn_msg e) w)
             else (Raises e, w)))"

text \<open>
  The whole function. Its result is \<open>Some\<close> of the result code a \<^verbatim>\<open>return\<close> gives, or
  \<open>None\<close> where the function ends without a \<^verbatim>\<open>return\<close> (Python's \<^verbatim>\<open>None\<close>).
  A workbook write that raises leaves at the output path what the outside says.
\<close>

definition combine_csvs_to_excel ::
  "env \<Rightarrow> string \<Rightarrow> string list \<Rightarrow> string \<Rightarrow> world \<Rightarrow> ErrorCode option outcome \<times> world" where
  "combine_csvs_to_excel env child_dir csv_files output_excel w =
     (case read_sheets env child_dir csv_files [] w of
        (Raises e, w1) \<Rightarrow> (Raises e, w1)
      | (Returns sheets, w1) \<Rightarrow>
          if sheets = []
          then (Returns (Some ERROR_UNKNOWN),
                py_print Combiner ''No valid CSV files were processed. Exiting...'' w1)
          else
            (case excel_fault env output_excel sheets of
               None \<Rightarrow>
                 (Returns (Some SUCCESS),
                  py_print Combiner (''Success!: '' @ output_excel)
                    (w1\<lparr>files := (files w1)(output_excel \<mapsto> Workbook (xlsx_sheets sheets))\<rparr>))
             | Some e \<Rightarrow>
                 if isinstance e PermissionError
                 then (Returns None,
                       py_print Combiner
                         (''Error: Permission denied when trying to write to ''
                            @ output_excel @ ''.'')
                         (w1\<lparr>files := (files w1)(output_excel :=
                                excel_leftover env output_excel sheets (files w1 output_excel))\<rparr>))
                 else if isinstance e Exception
                 then (Returns None,
                       py_print Combiner
                         (''An error occurred while writing the Excel file: '' @ exn_msg e)
                         (w1\<lparr>files := (files w1)(output_excel :=
                                excel_leftover env output_excel sheets (files w1 output_excel))\<rparr>))
                 else (Raises e,
                       w1\<lparr>files := (files w1)(output_excel :=
                              excel_leftover env output_excel sheets (files w1 output_excel))\<rparr>)))"

section \<open>The main block: the loop over the tickers (lines 176-179)\<close>

definition ticker_url :: "string \<Rightarrow> string \<Rightarrow> string \<Rightarrow> nat \<Rightarrow> string" where
  "ticker_url t five_weeks_ago current_date r =
     ''https://api.nasdaq.com/api/quote/'' @ t @ ''/historical?assetclass=stocks&fromdate=''
       @ five_weeks_ago @ ''&limit=9999&todate='' @ current_date @ ''&random='' @ show_nat r"

definition report_line :: "string \<Rightarrow> ErrorCode \<Rightarrow> string" where
  "report_line t rc = ljust 4 t @ '' - '' @ ErrorCode_str rc"

text \<open>The loop from its \<open>i\<close>-th iteration on, over the tickers already in upper case. An
  exception out of the call would end the program: the result is that exception, if
  any.\<close>

fun run_tickers ::
  "env \<Rightarrow> string \<Rightarrow> string \<Rightarrow> string \<Rightarrow> nat \<Rightarrow> string list \<Rightarrow> world \<Rightarrow> exn option \<times> world" where
  "run_tickers env child_dir five_weeks_ago current_date i [] w = (None, w)"
| "run_tickers env child_dir five_weeks_ago current_date i (t # ts) w =
     (case scrape_and_ingest_csv env
             (ticker_url t five_weeks_ago current_date (randint env i)) child_dir t w of
        (Raises e, w') \<Rightarrow> (Some e, w')
      | (Returns rc, w') \<Rightarrow>
          run_tickers env child_dir five_weeks_ago current_date (Suc i) ts
            (py_print Orchestrator (report_line t rc) w'))"

definition ticker_loop ::
  "env \<Rightarrow> string \<Rightarrow> string \<Rightarrow> string \<Rightarrow> string list \<Rightarrow> world \<Rightarrow> exn option \<times> world" where
  "ticker_loop env child_dir five_weeks_ago current_date tickers w =
     run_tickers env child_dir five_weeks_ago current_date 0 (map upper tickers) w"

section \<open>Notions the claims use\<close>

text \<open>A candidate filename is read successfully when its path exists and
  \<^verbatim>\<open>pd.read_csv\<close> returns a data frame for it.\<close>

definition read_ok :: "env \<Rightarrow> world \<Rightarrow> string \<Rightarrow> string \<Rightarrow> bool" where
  "read_ok env w child_dir f =
     (path_exists w (path_join child_dir f)
      \<and> (case pd_read_csv env w (path_join child_dir f) of Inr df \<Rightarrow> True | Inl e \<Rightarrow> False))"

text \<open>The dictionary \<^verbatim>\<open>sheets\<close> as the loop of lines 116-136 leaves it.\<close>

definition collected_sheets ::
  "env \<Rightarrow> string \<Rightarrow> string list \<Rightarrow> world \<Rightarrow> (string \<times> dataframe) list" where
  "collected_sheets env child_dir csv_files w =
     (case fst (read_sheets env child_dir csv_files [] w) of
        Returns sheets \<Rightarrow> sheets
      | Raises e \<Rightarrow> [])"

text \<open>The line the loop prints for a filename it skips.\<close>

definition skip_warning :: "env \<Rightarrow> world \<Rightarrow> string \<Rightarrow> string \<Rightarrow> string" where
  "skip_warning env w child_dir f =
     (if \<not> path_exists w (path_join child_dir f)
      then ''Error: The file '' @ path_join child_dir f @ '' does not exist.''
      else
        (case pd_read_csv env w (path_join child_dir f) of
           Inr df \<Rightarrow> []
         | Inl e \<Rightarrow>
             if isinstance e FileNotFoundError
             then ''File not found: '' @ path_join child_dir f
             else if isinstance e EmptyDataError
             then ''Warning: '' @ path_join child_dir f @ '' is empty.''
             else if isinstance e ParserError
             then ''Error: Failed to parse '' @ path_join child_dir f @ ''.''
             else ''An error occurred while processing '' @ path_join child_dir f
                    @ '': '' @ exn_msg e))"

text \<open>The sheet name as the specification words it: the filename with the extension
  stripped from its end.\<close>

definition spec_strip_extension :: "string \<Rightarrow> string \<Rightarrow> string" where
  "spec_strip_extension ext f =
     (if length ext \<le> length f \<and> drop (length f - length ext) f = ext
      then take (length f - length ext) f else f)"

text \<open>The lines that the \<^verbatim>\<open>print\<close> statements of \<open>who\<close> wrote between the worlds \<open>w\<close>
  and \<open>w'\<close>.\<close>

definition printed_by :: "printer \<Rightarrow> world \<Rightarrow> world \<Rightarrow> string list" where
  "printed_by who w w' =
     map snd (filter (\<lambda>l. fst l = who) (drop (length (console w)) (console w')))"

text \<open>The result codes that the calls of the loop return, in order.\<close>

fun loop_codes ::
  "env \<Rightarrow> string \<Rightarrow> string \<Rightarrow> string \<Rightarrow> nat \<Rightarrow> string list \<Rightarrow> world \<Rightarrow> ErrorCode list" where
  "loop_codes env child_dir five_weeks_ago current_date i [] w = []"
| "loop_codes env child_dir five_weeks_ago current_date i (t # ts) w =
     (case scrape_and_ingest_csv env
             (ticker_url t five_weeks_ago current_date (randint env i)) child_dir t w of
        (Raises e, w') \<Rightarrow> []
      | (Returns rc, w') \<Rightarrow>
          rc # loop_codes env child_dir five_weeks_ago current_date (Suc i) ts
                 (py_print Orchestrator (report_line t rc) w'))"

section \<open>Example inputs\<close>

text \<open>
  A response with two header fields and two rows, the second row without the
  \<^verbatim>\<open>close\<close> field; an outside where nothing fails and the parser takes the first
  record of a tabular file as the column labels; a world with the directory
  \<^verbatim>\<open>out\<close> and no file.
\<close>

definition body0 :: pyval where
  "body0 = PDict [(''data'', PDict [(''tradesTable'', PDict
     [(''headers'', PDict [(''date'', PStr ''Date''), (''close'', PStr ''Close/Last'')]),
      (''rows'', PList [PDict [(''date'', PStr ''01/03/2024''), (''close'', PStr ''$2'')],
                        PDict [(''date'', PStr ''01/02/2024'')]])])])]"

definition env0 :: env where
  "env0 = \<lparr>requests_get = (\<lambda>u. Inr \<lparr>status_code = 200, json = Inr body0\<rparr>),
           open_fault = (\<lambda>p. None), write_fault = (\<lambda>p n. None),
           parse_csv = (\<lambda>f. case f of CsvFile (h # rs) \<Rightarrow> Inr \<lparr>columns = h, data_rows = rs\<rparr>
                               | _ \<Rightarrow> Inl (Exn EmptyDataError ''No columns to parse from file'')),
           excel_fault = (\<lambda>p s. None), excel_leftover = (\<lambda>p s old. old),
           randint = (\<lambda>i. 7)\<rparr>"

definition w0 :: world where
  "w0 = \<lparr>dirs = {''out''}, files = Map.empty, console = []\<rparr>"

text \<open>Responses of other shapes, all with status 200: the body \<^verbatim>\<open>{"data": null}\<close> and the
  body \<^verbatim>\<open>{"data": {"tradesTable": null}}\<close>.\<close>

definition env_null_data :: env where
  "env_null_data =
     env0\<lparr>requests_get :=
       (\<lambda>u. Inr \<lparr>status_code = 200, json = Inr (PDict [(''data'', PNone)])\<rparr>)\<rparr>"

definition env_null_table :: env where
  "env_null_table =
     env0\<lparr>requests_get :=
       (\<lambda>u. Inr \<lparr>status_code = 200,
                   json = Inr (PDict [(''data'', PDict [(''tradesTable'', PNone)])])\<rparr>)\<rparr>"

text \<open>A run directory with the tabular file of one ticker, an empty tabular file and a
  stray file whose name has \<^verbatim>\<open>.csv\<close> twice; and an outside where writing the workbook
  is refused.\<close>

definition w_run :: world where
  "w_run =
     \<lparr>dirs = {''out''},
      files = [''out/AAPL.csv'' \<mapsto> CsvFile
                 [[PStr ''Date'', PStr ''Close/Last''],
                  [PStr ''01/02/2024'', PStr ''''],
                  [PStr ''01/03/2024'', PStr ''$2'']],
               ''out/EMPTY.csv'' \<mapsto> CsvFile [],
               ''out/AAPL.csv.old.csv'' \<mapsto> CsvFile [[PStr ''Date'']]],
      console = []\<rparr>"

definition env_denied :: env where
  "env_denied = env0\<lparr>excel_fault := (\<lambda>p s. Some (Exn PermissionError ''Permission denied''))\<rparr>"

text \<open>An outside that answers every request with status 404.\<close>

definition env_404 :: env where
  "env_404 = env0\<lparr>requests_get := (\<lambda>u. Inr \<lparr>status_code = 404, json = Inr PNone\<rparr>)\<rparr>"

text \<open>
  Consoles that refuse lines: one that encodes ASCII only, and a closed one. A ticker and
  a URL with the two bytes that encode the capital letter E with an acute accent.
\<close>

definition ascii_console :: "string \<Rightarrow> exn option" where
  "ascii_console line =
     (if list_all (\<lambda>c. (of_char c :: nat) < 128) line then None
      else Some (Exn UnicodeEncodeError ''ordinal not in range(128)''))"

definition closed_console :: "string \<Rightarrow> exn option" where
  "closed_console line = Some (Exn ValueError ''I/O operation on closed file.'')"

definition ticker_accent :: string where
  "ticker_accent = [CHR 0xC3, CHR 0x89]"

definition url_accent :: string where
  "url_accent = ''https://api.nasdaq.com/api/quote/'' @ [CHR 0xC3, CHR 0x89] @ ''/historical''"

section \<open>Facts about the operations\<close>

lemma isinstance_Exception [simp]: "isinstance e Exception"
  by (simp add: isinstance_def)

lemma row_values_dict:
  "row_values (PDict kvs) ks = Inr (map (\<lambda>k. case map_of kvs k of None \<Rightarrow> PStr '''' | Some v \<Rightarrow> v) ks)"
  by (induction ks) simp_all

lemma row_values_length: "row_values row ks = Inr vs \<Longrightarrow> length vs = length ks"
  by (induction ks arbitrary: vs) (auto split: sum.splits)

lemma row_values_is_dict:
  "row_values row ks = Inr vs \<Longrightarrow> ks \<noteq> [] \<Longrightarrow> \<exists>kvs. row = PDict kvs"
  by (cases ks; cases row) (auto split: sum.splits)

lemma write_rows_files:
  "write_rows env p (PDict hs) rs written w = (None, w') \<Longrightarrow>
   files w p = Some (CsvFile written) \<Longrightarrow>
   \<exists>lines. map Inr lines = map (\<lambda>row. row_values row (map fst hs)) rs
          \<and> files w' p = Some (CsvFile (written @ lines))"
proof (induction rs arbitrary: written w)
  case Nil
  then show ?case by simp
next
  case (Cons row rest)
  from Cons.prems(1) obtain vals where
    rv: "row_values row (map fst hs) = Inr vals" and
    wf: "write_fault env p (length written) = None" and
    rest: "write_rows env p (PDict hs) rest (written @ [vals])
             (w\<lparr>files := (files w)(p \<mapsto> CsvFile (written @ [vals]))\<rparr>) = (None, w')"
    by (auto simp: writerow_def split: sum.splits option.splits)
  from Cons.IH [OF rest] obtain lines where
    "map Inr lines = map (\<lambda>row. row_values row (map fst hs)) rest"
    "files w' p = Some (CsvFile ((written @ [vals]) @ lines))"
    by auto
  then have "map Inr (vals # lines) = map (\<lambda>row. row_values row (map fst hs)) (row # rest)
      \<and> files w' p = Some (CsvFile (written @ (vals # lines)))"
    using rv by simp
  then show ?case by blast
qed

lemma extract_Fetched_truthy:
  "extract_stage url data w = (Returns (Fetched h r), w1) \<Longrightarrow> truthy h \<and> truthy r \<and> w1 = w"
  by (auto simp: extract_stage_def split: sum.splits if_splits)

lemma fetch_Fetched_truthy:
  "fetch_stage env url w = (Returns (Fetched h r), w1) \<Longrightarrow> truthy h \<and> truthy r \<and> w1 = w"
  by (auto simp: fetch_stage_def split: sum.splits if_splits dest: extract_Fetched_truthy)

lemma write_rows_str:
  "hs \<noteq> [] \<Longrightarrow> write_rows env p (PDict hs) (PStr s # rest) written w \<noteq> (None, w')"
  by (cases hs) auto

lemma extract_Failed_not_SUCCESS:
  "extract_stage url data w = (Returns (Failed rc), w1) \<Longrightarrow> rc = ERROR_MISSING_FIELDS"
  by (auto simp: extract_stage_def split: sum.splits if_splits)

lemma fetch_Failed_not_SUCCESS:
  "fetch_stage env url w = (Returns (Failed rc), w1) \<Longrightarrow> rc \<noteq> SUCCESS"
  by (auto simp: fetch_stage_def split: sum.splits if_splits dest: extract_Failed_not_SUCCESS)

text \<open>The order of the checks of lines 53-83, for a body whose \<^verbatim>\<open>data\<close> member is an
  object (or absent).\<close>

lemma fetch_stage_transport_failure:
  "requests_get env url = Inl e \<Longrightarrow>
   fst (fetch_stage env url w) = Returns (Failed ERROR_HTTP_REQUEST)"
  by (simp add: fetch_stage_def)

lemma fetch_stage_bad_status:
  "requests_get env url = Inr r \<Longrightarrow> status_code r \<noteq> 200 \<Longrightarrow>
   fst (fetch_stage env url w) = Returns (Failed ERROR_HTTP_REQUEST)"
  by (simp add: fetch_stage_def)

lemma fetch_stage_unparseable:
  "requests_get env url = Inr r \<Longrightarrow> status_code r = 200 \<Longrightarrow> json r = Inl e \<Longrightarrow>
   isinstance e ValueError \<Longrightarrow>
   fst (fetch_stage env url w) = Returns (Failed ERROR_JSON_PARSING)"
  by (simp add: fetch_stage_def)

lemma fetch_stage_object_data:
  assumes "requests_get env url = Inr r" and "status_code r = 200" and "json r = Inr data"
    and "py_get data ''data'' (PDict []) = Inr (PDict d)"
  shows "fst (fetch_stage env url w) =
     (case map_of d ''tradesTable'' of
        None \<Rightarrow> Returns (Failed ERROR_MISSING_FIELDS)
      | Some tt \<Rightarrow>
          if \<not> truthy tt then Returns (Failed ERROR_MISSING_FIELDS)
          else
            (case tt of
               PDict kvs \<Rightarrow>
                 if \<not> truthy (case map_of kvs ''headers'' of None \<Rightarrow> PDict [] | Some h \<Rightarrow> h)
                 then Returns (Failed ERROR_MISSING_FIELDS)
                 else if \<not> truthy (case map_of kvs ''rows'' of None \<Rightarrow> PList [] | Some rs \<Rightarrow> rs)
                 then Returns (Failed ERROR_MISSING_FIELDS)
                 else Returns (Fetched
                        (case map_of kvs ''headers'' of None \<Rightarrow> PDict [] | Some h \<Rightarrow> h)
                        (case map_of kvs ''rows'' of None \<Rightarrow> PList [] | Some rs \<Rightarrow> rs))
             | _ \<Rightarrow> Raises (no_attribute tt ''get'')))"
proof (cases "map_of d ''tradesTable''")
  case None
  with assms show ?thesis by (simp add: fetch_stage_def extract_stage_def)
next
  case (Some tt)
  with assms show ?thesis
    by (cases tt) (simp_all add: fetch_stage_def extract_stage_def)
qed

lemma write_csv_success:
  assumes "write_csv env p h r w = (None, w')" and "truthy h" and "truthy r"
  shows "\<exists>hs rs lines. h = PDict hs \<and> r = PList rs \<and> hs \<noteq> [] \<and> rs \<noteq> []
           \<and> map Inr lines = map (\<lambda>row. row_values row (map fst hs)) (rev rs)
           \<and> files w' p = Some (CsvFile (map snd hs # lines))"
proof -
  from assms(1) obtain hs where h: "h = PDict hs"
    by (cases h) (auto simp: write_csv_def split: option.splits)
  with assms(2) have hs: "hs \<noteq> []" by simp
  from assms(1) h obtain rs' where
    rev: "py_reversed r = Inr rs'" and
    wr: "write_rows env p (PDict hs) rs' [map snd hs]
           (w\<lparr>files := (files w)(p \<mapsto> CsvFile [map snd hs])\<rparr>) = (None, w')"
    by (auto simp: write_csv_def writerow_def split: option.splits sum.splits)
  have "\<exists>rs. r = PList rs"
  proof (cases r)
    case (PStr s)
    with assms(3) obtain c cs where "rev s = c # cs" by (cases "rev s") auto
    with PStr rev have "rs' = PStr [c] # map (\<lambda>c. PStr [c]) cs" by auto
    with wr write_rows_str [OF hs] show ?thesis by blast
  next
    case (PDict kvs)
    with assms(3) obtain kv rest where "rev kvs = kv # rest" by (cases "rev kvs") auto
    with PDict rev have "rs' = PStr (fst kv) # map (\<lambda>kv. PStr (fst kv)) rest" by auto
    with wr write_rows_str [OF hs] show ?thesis by blast
  qed (use rev in auto)
  then obtain rs where r: "r = PList rs" ..
  with assms(3) rev have rs: "rs \<noteq> []" "rs' = rev rs" by auto
  from write_rows_files [OF wr] obtain lines where
    "map Inr lines = map (\<lambda>row. row_values row (map fst hs)) rs'"
    "files w' p = Some (CsvFile ([map snd hs] @ lines))"
    by auto
  with h r hs rs show ?thesis by auto
qed

lemma scrape_success_written:
  assumes "fst (scrape_and_ingest_csv env url child_dir t w) = Returns SUCCESS"
  shows "\<exists>hs rs lines.
           fst (fetch_stage env url w) = Returns (Fetched (PDict hs) (PList rs))
         \<and> hs \<noteq> [] \<and> rs \<noteq> []
         \<and> map Inr lines = map (\<lambda>row. row_values row (map fst hs)) (rev rs)
         \<and> files (snd (scrape_and_ingest_csv env url child_dir t w))
               (path_join child_dir (t @ ''.csv'')) = Some (CsvFile (map snd hs # lines))"
proof -
  obtain fr w1 where f: "fetch_stage env url w = (fr, w1)" by (cases "fetch_stage env url w")
  have "\<exists>h r. fr = Returns (Fetched h r)"
  proof (cases fr)
    case (Returns x)
    show ?thesis
    proof (cases x)
      case (Failed rc)
      with Returns f fetch_Failed_not_SUCCESS have "rc \<noteq> SUCCESS" by blast
      with assms f Returns Failed show ?thesis
        by (simp add: scrape_and_ingest_csv_def scrape_body_def)
    qed (use Returns in simp)
  next
    case (Raises e)
    with assms f show ?thesis
      by (simp add: scrape_and_ingest_csv_def scrape_body_def)
  qed
  then obtain h r where fr: "fr = Returns (Fetched h r)" by blast
  from f fr have tr: "truthy h" "truthy r" "w1 = w" using fetch_Fetched_truthy by blast+
  obtain eo w2 where wc: "write_csv env (path_join child_dir (t @ ''.csv'')) h r w = (eo, w2)"
    by (cases "write_csv env (path_join child_dir (t @ ''.csv'')) h r w")
  from assms f fr tr wc have "eo = None \<and> snd (scrape_and_ingest_csv env url child_dir t w) = w2"
    by (auto simp: scrape_and_ingest_csv_def scrape_body_def write_stage_def
             split: if_splits option.splits)
  with wc write_csv_success [OF _ tr(1,2)] f fr show ?thesis by fastforce
qed

lemma fetch_env0:
  "fetch_stage env0 url w =
     (Returns (Fetched (PDict [(''date'', PStr ''Date''), (''close'', PStr ''Close/Last'')])
        (PList [PDict [(''date'', PStr ''01/03/2024''), (''close'', PStr ''$2'')],
                PDict [(''date'', PStr ''01/02/2024'')]])), w)"
  by (simp add: fetch_stage_def extract_stage_def env0_def body0_def)

lemma scrape_env0:
  "scrape_and_ingest_csv env0 url ''out'' ''AAPL'' w0 =
     (Returns SUCCESS,
      w0\<lparr>files := [''out/AAPL.csv'' \<mapsto> CsvFile
             [[PStr ''Date'', PStr ''Close/Last''],
              [PStr ''01/02/2024'', PStr ''''],
              [PStr ''01/03/2024'', PStr ''$2'']]]\<rparr>)"
  by (simp add: scrape_and_ingest_csv_def scrape_body_def fetch_env0)
     (simp add: write_stage_def write_csv_def writerow_def path_exists_def path_join_def
        env0_def w0_def)

lemma scrape_returns:
  "\<exists>rc. fst (scrape_and_ingest_csv env url child_dir t w) = Returns rc"
  by (cases "scrape_body env url child_dir t w"; cases "fst (scrape_body env url child_dir t w)")
     (auto simp: scrape_and_ingest_csv_def)

lemma scrape_null_table_is_missing_fields:
  "fst (scrape_and_ingest_csv env_null_table ''u'' ''out'' ''ZZZZ'' w0)
     = Returns ERROR_MISSING_FIELDS"
  by (simp add: scrape_and_ingest_csv_def scrape_body_def fetch_stage_def extract_stage_def
        env_null_table_def env0_def)

lemma path_exists_print [simp]: "path_exists (py_print who l w) p = path_exists w p"
  by (simp add: path_exists_def py_print_def)

lemma pd_read_csv_print [simp]: "pd_read_csv env (py_print who l w) p = pd_read_csv env w p"
  by (simp add: pd_read_csv_def py_print_def)

lemma files_print [simp]: "files (py_print who l w) = files w"
  by (simp add: py_print_def)

lemma dirs_print [simp]: "dirs (py_print who l w) = dirs w"
  by (simp add: py_print_def)

lemma console_print [simp]: "console (py_print who l w) = console w @ [(who, l)]"
  by (simp add: py_print_def)

lemma read_ok_print [simp]: "read_ok env (py_print who l w) d f = read_ok env w d f"
  by (simp add: read_ok_def)

lemma read_sheets_Cons_ok:
  "read_ok env w d f \<Longrightarrow>
   \<exists>df. pd_read_csv env w (path_join d f) = Inr df
      \<and> read_sheets env d (f # fs) sheets w
          = read_sheets env d fs (dict_set sheets (sheet_name_of (path_join d f)) df) w"
  by (auto simp: read_ok_def split: sum.splits)

lemma read_sheets_Cons_skip:
  "\<not> read_ok env w d f \<Longrightarrow>
   read_sheets env d (f # fs) sheets w
     = read_sheets env d fs sheets (py_print Combiner (skip_warning env w d f) w)"
  by (auto simp: read_ok_def skip_warning_def split: sum.splits)

lemma read_sheets_world:
  "files (snd (read_sheets env d fs sheets w)) = files w
   \<and> dirs (snd (read_sheets env d fs sheets w)) = dirs w"
proof (induction fs arbitrary: sheets w)
  case Nil
  show ?case by simp
next
  case (Cons f fs)
  show ?case
  proof (cases "read_ok env w d f")
    case True
    from read_sheets_Cons_ok [OF True] obtain df where
      "read_sheets env d (f # fs) sheets w
         = read_sheets env d fs (dict_set sheets (sheet_name_of (path_join d f)) df) w"
      by blast
    then show ?thesis by (simp only: Cons.IH)
  next
    case False
    show ?thesis unfolding read_sheets_Cons_skip [OF False]
      by (simp only: Cons.IH files_print dirs_print)
  qed
qed

lemma read_sheets_returns: "\<exists>sh. fst (read_sheets env d fs sheets w) = Returns sh"
proof (induction fs arbitrary: sheets w)
  case Nil
  show ?case by simp
next
  case (Cons f fs)
  show ?case
  proof (cases "read_ok env w d f")
    case True
    from read_sheets_Cons_ok [OF True] obtain df where
      "read_sheets env d (f # fs) sheets w
         = read_sheets env d fs (dict_set sheets (sheet_name_of (path_join d f)) df) w"
      by blast
    then show ?thesis by (simp only: Cons.IH)
  next
    case False
    show ?thesis unfolding read_sheets_Cons_skip [OF False] by (rule Cons.IH)
  qed
qed

lemma read_ok_cong:
  "files w1 = files w2 \<Longrightarrow> dirs w1 = dirs w2 \<Longrightarrow> read_ok env w1 d f = read_ok env w2 d f"
  by (simp add: read_ok_def path_exists_def pd_read_csv_def)

lemma pd_read_csv_cong:
  "files w1 = files w2 \<Longrightarrow> dirs w1 = dirs w2 \<Longrightarrow> pd_read_csv env w1 p = pd_read_csv env w2 p"
  by (simp add: pd_read_csv_def)

lemma read_sheets_console_irrelevant:
  "files w1 = files w2 \<Longrightarrow> dirs w1 = dirs w2 \<Longrightarrow>
   fst (read_sheets env d fs sheets w1) = fst (read_sheets env d fs sheets w2)"
proof (induction fs arbitrary: sheets w1 w2)
  case Nil
  show ?case by simp
next
  case (Cons f fs)
  have ok: "read_ok env w1 d f = read_ok env w2 d f"
    using Cons.prems by (rule read_ok_cong)
  have rd: "pd_read_csv env w1 (path_join d f) = pd_read_csv env w2 (path_join d f)"
    using Cons.prems by (rule pd_read_csv_cong)
  show ?case
  proof (cases "read_ok env w2 d f")
    case True
    from read_sheets_Cons_ok [OF True] obtain df where
      df: "pd_read_csv env w2 (path_join d f) = Inr df" and
      s2: "read_sheets env d (f # fs) sheets w2
         = read_sheets env d fs (dict_set sheets (sheet_name_of (path_join d f)) df) w2"
      by blast
    from True ok have "read_ok env w1 d f" by simp
    from read_sheets_Cons_ok [OF this] rd df have
      s1: "read_sheets env d (f # fs) sheets w1
         = read_sheets env d fs (dict_set sheets (sheet_name_of (path_join d f)) df) w1"
      by auto
    show ?thesis unfolding s1 s2 using Cons.prems by (rule Cons.IH)
  next
    case False
    with ok have False1: "\<not> read_ok env w1 d f" by simp
    show ?thesis
      unfolding read_sheets_Cons_skip [OF False] read_sheets_Cons_skip [OF False1]
      by (rule Cons.IH) (simp_all add: Cons.prems)
  qed
qed

lemma read_sheets_filter:
  "fst (read_sheets env d fs sheets w)
     = fst (read_sheets env d (filter (read_ok env w d) fs) sheets w)"
proof (induction fs arbitrary: sheets)
  case Nil
  show ?case by simp
next
  case (Cons f fs)
  show ?case
  proof (cases "read_ok env w d f")
    case True
    from read_sheets_Cons_ok [OF True] obtain df where
      "\<And>fs. read_sheets env d (f # fs) sheets w
         = read_sheets env d fs (dict_set sheets (sheet_name_of (path_join d f)) df) w"
      by (metis sum.inject(2))
    with True show ?thesis by (simp add: Cons.IH del: read_sheets.simps)
  next
    case False
    have "fst (read_sheets env d (f # fs) sheets w) = fst (read_sheets env d fs sheets w)"
      unfolding read_sheets_Cons_skip [OF False]
      by (rule read_sheets_console_irrelevant) simp_all
    with False show ?thesis by (simp add: Cons.IH del: read_sheets.simps)
  qed
qed

lemma dict_set_not_Nil [simp]: "dict_set sheets k v \<noteq> []"
  by (cases sheets) auto

lemma map_of_dict_set: "map_of (dict_set sheets k v) = (map_of sheets)(k \<mapsto> v)"
  by (induction sheets) (auto simp: fun_eq_iff)

lemma read_sheets_keeps_nonempty:
  "sheets \<noteq> [] \<Longrightarrow> fst (read_sheets env d fs sheets w) \<noteq> Returns []"
proof (induction fs arbitrary: sheets w)
  case Nil
  then show ?case by simp
next
  case (Cons f fs)
  show ?case
  proof (cases "read_ok env w d f")
    case True
    from read_sheets_Cons_ok [OF True] obtain df where
      st: "read_sheets env d (f # fs) sheets w
         = read_sheets env d fs (dict_set sheets (sheet_name_of (path_join d f)) df) w"
      by blast
    show ?thesis unfolding st by (rule Cons.IH) simp
  next
    case False
    show ?thesis unfolding read_sheets_Cons_skip [OF False] using Cons.prems by (rule Cons.IH)
  qed
qed

lemma read_sheets_none_ok:
  "\<forall>f\<in>set fs. \<not> read_ok env w d f \<Longrightarrow> fst (read_sheets env d fs sheets w) = Returns sheets"
proof -
  assume "\<forall>f\<in>set fs. \<not> read_ok env w d f"
  then have "filter (read_ok env w d) fs = []" by (simp add: filter_empty_conv)
  then show ?thesis using read_sheets_filter [of env d fs sheets w] by simp
qed

lemma read_sheets_some_ok:
  "f \<in> set fs \<Longrightarrow> read_ok env w d f \<Longrightarrow> fst (read_sheets env d fs sheets w) \<noteq> Returns []"
proof (induction fs arbitrary: sheets w)
  case Nil
  then show ?case by simp
next
  case (Cons g fs)
  show ?case
  proof (cases "read_ok env w d g")
    case True
    from read_sheets_Cons_ok [OF True] obtain df where
      st: "read_sheets env d (g # fs) sheets w
         = read_sheets env d fs (dict_set sheets (sheet_name_of (path_join d g)) df) w"
      by blast
    show ?thesis unfolding st by (rule read_sheets_keeps_nonempty) simp
  next
    case False
    with Cons.prems have "f \<in> set fs" by auto
    moreover from Cons.prems(2)
    have "read_ok env (py_print Combiner (skip_warning env w d g) w) d f" by simp
    ultimately show ?thesis unfolding read_sheets_Cons_skip [OF False] by (rule Cons.IH)
  qed
qed

lemma collected_sheets_Returns:
  "fst (read_sheets env d fs [] w) = Returns (collected_sheets env d fs w)"
  using read_sheets_returns [of env d fs "[]" w] by (auto simp: collected_sheets_def)

lemma collected_sheets_empty_iff:
  "collected_sheets env d fs w = [] \<longleftrightarrow> (\<forall>f\<in>set fs. \<not> read_ok env w d f)"
proof
  assume "collected_sheets env d fs w = []"
  then have "fst (read_sheets env d fs [] w) = Returns []"
    using collected_sheets_Returns [of env d fs w] by simp
  then show "\<forall>f\<in>set fs. \<not> read_ok env w d f"
    using read_sheets_some_ok by blast
next
  assume "\<forall>f\<in>set fs. \<not> read_ok env w d f"
  then show "collected_sheets env d fs w = []"
    by (simp add: collected_sheets_def read_sheets_none_ok)
qed

lemma combine_unfold:
  "combine_csvs_to_excel env d fs out w =
     (if collected_sheets env d fs w = []
      then (Returns (Some ERROR_UNKNOWN),
            py_print Combiner ''No valid CSV files were processed. Exiting...''
              (snd (read_sheets env d fs [] w)))
      else
        (case excel_fault env out (collected_sheets env d fs w) of
           None \<Rightarrow>
             (Returns (Some SUCCESS),
              py_print Combiner (''Success!: '' @ out)
                ((snd (read_sheets env d fs [] w))\<lparr>files :=
                   (files (snd (read_sheets env d fs [] w)))(out \<mapsto>
                     Workbook (xlsx_sheets (collected_sheets env d fs w)))\<rparr>))
         | Some e \<Rightarrow>
             (Returns None,
              py_print Combiner
                (if isinstance e PermissionError
                 then ''Error: Permission denied when trying to write to '' @ out @ ''.''
                 else ''An error occurred while writing the Excel file: '' @ exn_msg e)
                ((snd (read_sheets env d fs [] w))\<lparr>files :=
                   (files (snd (read_sheets env d fs [] w)))(out :=
                     excel_leftover env out (collected_sheets env d fs w)
                       (files (snd (read_sheets env d fs [] w)) out))\<rparr>))))"
proof -
  obtain r w1 where rw: "read_sheets env d fs [] w = (r, w1)"
    by (cases "read_sheets env d fs [] w")
  with collected_sheets_Returns [of env d fs w]
  have r: "r = Returns (collected_sheets env d fs w)" by simp
  show ?thesis
    by (simp add: combine_csvs_to_excel_def rw r split: option.splits)
qed

declare str_replace.simps [simp del]
declare show_nat.simps [simp del]

lemma basename_no_slash: "CHR ''/'' \<notin> set b \<Longrightarrow> basename b = b"
proof -
  assume a: "CHR ''/'' \<notin> set b"
  have "takeWhile (\<lambda>c. c \<noteq> CHR ''/'') (rev b) = rev b"
    unfolding takeWhile_eq_all_conv using a by auto
  then show ?thesis unfolding basename_def by (simp only: rev_rev_ident)
qed

lemma basename_append_slash:
  "basename (a @ CHR ''/'' # b) = basename b"
proof (cases "CHR ''/'' \<in> set b")
  case True
  then have "\<exists>x\<in>set (rev b). \<not> x \<noteq> CHR ''/''" by simp
  then obtain x where "x \<in> set (rev b)" "\<not> x \<noteq> CHR ''/''" by blast
  then have "takeWhile (\<lambda>c. c \<noteq> CHR ''/'') (rev b @ CHR ''/'' # rev a)
      = takeWhile (\<lambda>c. c \<noteq> CHR ''/'') (rev b)"
    by (rule takeWhile_append1)
  then show ?thesis by (simp add: basename_def)
next
  case False
  then have "takeWhile (\<lambda>c. c \<noteq> CHR ''/'') (rev b @ CHR ''/'' # rev a)
      = rev b @ takeWhile (\<lambda>c. c \<noteq> CHR ''/'') (CHR ''/'' # rev a)"
    by (intro takeWhile_append2) auto
  then have "basename (a @ CHR ''/'' # b) = b" by (simp add: basename_def)
  with False show ?thesis by (simp add: basename_no_slash)
qed

lemma basename_path_join: "basename (path_join a b) = basename b"
proof -
  consider (abs) "b \<noteq> [] \<and> hd b = CHR ''/''"
    | (empty) "\<not> (b \<noteq> [] \<and> hd b = CHR ''/'')" "a = []"
    | (slash) "\<not> (b \<noteq> [] \<and> hd b = CHR ''/'')" "a \<noteq> []" "last a = CHR ''/''"
    | (plain) "\<not> (b \<noteq> [] \<and> hd b = CHR ''/'')" "a \<noteq> []" "last a \<noteq> CHR ''/''"
    by blast
  then show ?thesis
  proof cases
    case abs
    then show ?thesis by (simp add: path_join_def)
  next
    case empty
    then show ?thesis by (simp add: path_join_def)
  next
    case slash
    then have "a = butlast a @ [CHR ''/'']" by (metis append_butlast_last_id)
    then have "a @ b = butlast a @ CHR ''/'' # b" by (metis append.assoc append_Cons append_Nil)
    with slash have "path_join a b = butlast a @ CHR ''/'' # b" by (simp add: path_join_def)
    then show ?thesis by (simp add: basename_append_slash)
  next
    case plain
    then have "path_join a b = a @ CHR ''/'' # b" by (simp add: path_join_def)
    then show ?thesis by (simp add: basename_append_slash)
  qed
qed

lemma sheet_name_of_path_join:
  "sheet_name_of (path_join d f) = str_replace ''.csv'' '''' (basename f)"
  by (simp add: sheet_name_of_def basename_path_join)

lemma str_replace_csv_Cons:
  "str_replace ''.csv'' '''' (c # s) =
     (if take 4 (c # s) = ''.csv'' then str_replace ''.csv'' '''' (drop 4 (c # s))
      else c # str_replace ''.csv'' '''' s)"
proof -
  have len: "length ''.csv'' = (4::nat)" by simp
  show ?thesis
    by (subst str_replace.simps)
       (simp only: len list.sel list.distinct append_Nil if_False simp_thms)
qed

lemma take4_stem_csv:
  assumes "\<forall>i. take 4 (drop i (c # cs)) \<noteq> ''.csv''"
  shows "take 4 (c # (cs @ ''.csv'')) \<noteq> ''.csv''"
proof (cases "length (c # cs) \<ge> 4")
  case True
  then have "take 4 (c # (cs @ ''.csv'')) = take 4 (c # cs)" by simp
  with assms [rule_format, of 0] show ?thesis by simp
next
  case False
  then consider "cs = []" | x where "cs = [x]" | x y where "cs = [x, y]"
    by (cases cs; cases "tl cs"; cases "tl (tl cs)") auto
  then show ?thesis by cases auto
qed

lemma str_replace_csv_stem:
  "\<forall>i. take 4 (drop i T) \<noteq> ''.csv'' \<Longrightarrow> str_replace ''.csv'' '''' (T @ ''.csv'') = T"
proof (induction T)
  case Nil
  show ?case by (simp add: str_replace.simps)
next
  case (Cons c cs)
  have "\<forall>i. take 4 (drop i cs) \<noteq> ''.csv''"
  proof
    fix i from Cons.prems [rule_format, of "Suc i"] show "take 4 (drop i cs) \<noteq> ''.csv''" by simp
  qed
  then have ih: "str_replace ''.csv'' '''' (cs @ ''.csv'') = cs" by (rule Cons.IH)
  have "str_replace ''.csv'' '''' (c # (cs @ ''.csv''))
      = c # str_replace ''.csv'' '''' (cs @ ''.csv'')"
    by (subst str_replace_csv_Cons) (simp only: take4_stem_csv [OF Cons.prems] if_False)
  with ih show ?case by simp
qed

lemma skip_warning_print [simp]:
  "skip_warning env (py_print who l w) d f = skip_warning env w d f"
  by (simp add: skip_warning_def)

lemma read_sheets_warnings:
  "console (snd (read_sheets env d fs sheets w))
     = console w @ map (\<lambda>f. (Combiner, skip_warning env w d f))
                     (filter (\<lambda>f. \<not> read_ok env w d f) fs)"
proof (induction fs arbitrary: sheets w)
  case Nil
  show ?case by simp
next
  case (Cons f fs)
  show ?case
  proof (cases "read_ok env w d f")
    case True
    from read_sheets_Cons_ok [OF True] obtain df where
      st: "read_sheets env d (f # fs) sheets w
         = read_sheets env d fs (dict_set sheets (sheet_name_of (path_join d f)) df) w"
      by blast
    show ?thesis unfolding st using True by (simp add: Cons.IH)
  next
    case False
    show ?thesis unfolding read_sheets_Cons_skip [OF False] using False
      by (simp add: Cons.IH)
  qed
qed

lemma read_ok_w_run:
  "read_ok env0 w_run ''out'' ''AAPL.csv''"
  "\<not> read_ok env0 w_run ''out'' ''EMPTY.csv''"
  "\<not> read_ok env0 w_run ''out'' ''MISSING.csv''"
  "read_ok env0 w_run ''out'' ''AAPL.csv.old.csv''"
  by (simp_all add: read_ok_def path_exists_def pd_read_csv_def path_join_def w_run_def env0_def)

lemma collected_w_run:
  "collected_sheets env0 ''out'' [''MISSING.csv'', ''EMPTY.csv'', ''AAPL.csv''] w_run
     = [(''AAPL'', \<lparr>columns = [PStr ''Date'', PStr ''Close/Last''],
                    data_rows = [[PStr ''01/02/2024'', PStr ''''],
                                 [PStr ''01/03/2024'', PStr ''$2'']]\<rparr>)]"
  by (simp add: collected_sheets_def path_exists_def pd_read_csv_def path_join_def w_run_def
        env0_def isinstance_def sheet_name_of_def basename_def str_replace.simps py_print_def)

lemma writerow_console:
  "writerow env p written r w = Inr (written', w') \<Longrightarrow> console w' = console w"
  by (auto simp: writerow_def split: option.splits)

lemma write_rows_console:
  "console (snd (write_rows env p headers rs written w)) = console w"
proof (induction rs arbitrary: written w)
  case Nil
  show ?case by simp
next
  case (Cons row rest)
  show ?case
    by (auto simp: Cons.IH dest: writerow_console split: sum.splits)
qed

lemma write_csv_console:
  "console (snd (write_csv env p headers rows w)) = console w"
  by (auto simp: write_csv_def write_rows_console dest!: writerow_console
           split: option.splits sum.splits)

lemma write_stage_console:
  "\<exists>ls. console (snd (write_stage env url child_dir t headers rows w)) = console w @ ls
      \<and> (\<forall>l\<in>set ls. fst l = Fetcher)"
proof (cases "path_exists w child_dir")
  case False
  then show ?thesis by (simp add: write_stage_def)
next
  case True
  obtain eo w' where wc: "write_csv env (path_join child_dir (t @ ''.csv'')) headers rows w = (eo, w')"
    by (cases "write_csv env (path_join child_dir (t @ ''.csv'')) headers rows w")
  with write_csv_console [of env "path_join child_dir (t @ ''.csv'')" headers rows w]
  have "console w' = console w" by simp
  with True wc show ?thesis by (cases eo) (auto simp: write_stage_def)
qed

lemma extract_stage_console:
  "\<exists>ls. console (snd (extract_stage url data w)) = console w @ ls
      \<and> (\<forall>l\<in>set ls. fst l = Fetcher)"
  by (auto simp: extract_stage_def split: sum.splits)

lemma fetch_stage_console:
  "\<exists>ls. console (snd (fetch_stage env url w)) = console w @ ls
      \<and> (\<forall>l\<in>set ls. fst l = Fetcher)"
  using extract_stage_console by (auto simp: fetch_stage_def split: sum.splits)

lemma scrape_body_console:
  "\<exists>ls. console (snd (scrape_body env url child_dir t w)) = console w @ ls
      \<and> (\<forall>l\<in>set ls. fst l = Fetcher)"
proof -
  obtain fr w1 where f: "fetch_stage env url w = (fr, w1)" by (cases "fetch_stage env url w")
  with fetch_stage_console [of env url w] obtain ls1 where
    ls1: "console w1 = console w @ ls1" "\<forall>l\<in>set ls1. fst l = Fetcher" by auto
  show ?thesis
  proof (cases fr)
    case (Raises e)
    with f ls1 show ?thesis by (simp add: scrape_body_def)
  next
    case (Returns x)
    show ?thesis
    proof (cases x)
      case (Failed rc)
      with Returns f ls1 show ?thesis by (simp add: scrape_body_def)
    next
      case (Fetched h r)
      from write_stage_console [of env url child_dir t h r w1] obtain ls2 where
        "console (snd (write_stage env url child_dir t h r w1)) = console w1 @ ls2"
        "\<forall>l\<in>set ls2. fst l = Fetcher" by blast
      with ls1 have "console (snd (write_stage env url child_dir t h r w1)) = console w @ (ls1 @ ls2)
          \<and> (\<forall>l\<in>set (ls1 @ ls2). fst l = Fetcher)" by auto
      with Returns Fetched f show ?thesis by (simp add: scrape_body_def)
    qed
  qed
qed

lemma scrape_console:
  "\<exists>ls. console (snd (scrape_and_ingest_csv env url child_dir t w)) = console w @ ls
      \<and> (\<forall>l\<in>set ls. fst l = Fetcher)"
proof -
  obtain r w1 where b: "scrape_body env url child_dir t w = (r, w1)"
    by (cases "scrape_body env url child_dir t w")
  with scrape_body_console [of env url child_dir t w] obtain ls1 where
    ls1: "console w1 = console w @ ls1" "\<forall>l\<in>set ls1. fst l = Fetcher" by auto
  show ?thesis
  proof (cases r)
    case (Returns rc)
    with b ls1 show ?thesis by (simp add: scrape_and_ingest_csv_def)
  next
    case (Raises e)
    let ?l = "(Fetcher, ''Unexpected error for URL '' @ url @ '': '' @ exn_msg e)"
    from ls1 have "console w1 @ [?l] = console w @ (ls1 @ [?l])
        \<and> (\<forall>l\<in>set (ls1 @ [?l]). fst l = Fetcher)" by simp
    with Raises b show ?thesis by (simp add: scrape_and_ingest_csv_def)
  qed
qed

lemma run_tickers_console:
  "\<exists>ls. console (snd (run_tickers env d fwa cd i ts w)) = console w @ ls
      \<and> map snd (filter (\<lambda>l. fst l = Orchestrator) ls)
           = map2 report_line ts (loop_codes env d fwa cd i ts w)
      \<and> length (loop_codes env d fwa cd i ts w) = length ts
      \<and> fst (run_tickers env d fwa cd i ts w) = None"
proof (induction ts arbitrary: i w)
  case Nil
  show ?case by simp
next
  case (Cons t ts)
  let ?url = "ticker_url t fwa cd (randint env i)"
  obtain r w1 where s: "scrape_and_ingest_csv env ?url d t w = (r, w1)"
    by (cases "scrape_and_ingest_csv env ?url d t w")
  with scrape_returns [of env ?url d t w] obtain rc where rc: "r = Returns rc" by auto
  from s scrape_console [of env ?url d t w] obtain ls1 where
    ls1: "console w1 = console w @ ls1" "\<forall>l\<in>set ls1. fst l = Fetcher" by auto
  let ?w2 = "py_print Orchestrator (report_line t rc) w1"
  from Cons.IH [of "Suc i" ?w2] obtain ls2 where
    ls2: "console (snd (run_tickers env d fwa cd (Suc i) ts ?w2)) = console ?w2 @ ls2"
         "map snd (filter (\<lambda>l. fst l = Orchestrator) ls2)
            = map2 report_line ts (loop_codes env d fwa cd (Suc i) ts ?w2)"
         "length (loop_codes env d fwa cd (Suc i) ts ?w2) = length ts"
         "fst (run_tickers env d fwa cd (Suc i) ts ?w2) = None"
    by blast
  let ?ls = "ls1 @ (Orchestrator, report_line t rc) # ls2"
  from ls1(2) have "filter (\<lambda>l. fst l = Orchestrator) ls1 = []"
    by (auto simp: filter_empty_conv)
  with s rc ls1 ls2 have
    "console (snd (run_tickers env d fwa cd i (t # ts) w)) = console w @ ?ls
      \<and> map snd (filter (\<lambda>l. fst l = Orchestrator) ?ls)
           = map2 report_line (t # ts) (loop_codes env d fwa cd i (t # ts) w)
      \<and> length (loop_codes env d fwa cd i (t # ts) w) = length (t # ts)
      \<and> fst (run_tickers env d fwa cd i (t # ts) w) = None"
    by simp
  then show ?case by blast
qed

lemma report_line_eq:
  "report_line t rc = ljust 4 t @ '' - ErrorCode.'' @ ErrorCode_name rc"
  by (simp add: report_line_def ErrorCode_str_def)

lemma upper_examples:
  "upper ''aapl'' = ''AAPL''" "upper ''zzzzinvalid'' = ''ZZZZINVALID''" "upper ''f'' = ''F''"
  by code_simp+

lemma scrape_env_404:
  "scrape_and_ingest_csv env_404 url d t w
     = (Returns ERROR_HTTP_REQUEST, py_print Fetcher (''Error: Bad status_code from: '' @ url) w)"
  by (simp add: scrape_and_ingest_csv_def scrape_body_def fetch_stage_def env_404_def)

lemma console_w0: "console w0 = []"
  by (simp add: w0_def)

lemma loop_env0:
  "printed_by Orchestrator w0
     (snd (ticker_loop env0 ''out'' ''2024-01-01'' ''2024-02-05'' [''aapl''] w0))
     = [''AAPL - ErrorCode.SUCCESS'']"
  by (simp add: ticker_loop_def upper_examples scrape_env0 printed_by_def report_line_def
        ljust_def ErrorCode_str_def console_w0 numeral_3_eq_3)

lemma loop_env_404:
  "printed_by Orchestrator w0
     (snd (ticker_loop env_404 ''out'' ''2024-01-01'' ''2024-02-05'' [''zzzzinvalid'', ''f''] w0))
     = [''ZZZZINVALID - ErrorCode.ERROR_HTTP_REQUEST'', ''F    - ErrorCode.ERROR_HTTP_REQUEST'']"
  by (simp add: ticker_loop_def upper_examples scrape_env_404 printed_by_def report_line_def
        ljust_def ErrorCode_str_def console_w0 numeral_3_eq_3)

text \<open>On a console that accepts every line, the function of the section on consoles is
  \<open>scrape_and_ingest_csv\<close>.\<close>

lemma print_then_working:
  "print_then (\<lambda>line. None) who line r w = (Returns r, py_print who line w)"
  by (simp add: print_then_def)

lemma extract_stage_on_working:
  "extract_stage_on (\<lambda>line. None) url data w = extract_stage url data w"
  unfolding extract_stage_on_def extract_stage_def print_then_working by (rule refl)

lemma fetch_stage_on_working:
  "fetch_stage_on (\<lambda>line. None) env url w = fetch_stage env url w"
  unfolding fetch_stage_on_def fetch_stage_def print_then_working extract_stage_on_working
  by (rule refl)

lemma write_stage_on_working:
  "write_stage_on (\<lambda>line. None) env url child_dir t headers rows w
     = write_stage env url child_dir t headers rows w"
  unfolding write_stage_on_def write_stage_def print_then_working by (rule refl)

lemma scrape_body_on_working:
  "scrape_body_on (\<lambda>line. None) env url child_dir t w = scrape_body env url child_dir t w"
  unfolding scrape_body_on_def scrape_body_def fetch_stage_on_working write_stage_on_working
  by (rule refl)

lemma scrape_on_working_console:
  "scrape_and_ingest_csv_on (\<lambda>line. None) env url child_dir t w
     = scrape_and_ingest_csv env url child_dir t w"
  unfolding scrape_and_ingest_csv_on_def scrape_and_ingest_csv_def scrape_body_on_working
    print_then_working
  by (rule refl)

text \<open>An exception leaves the function only from the \<^verbatim>\<open>print\<close> of line 104: the console
  has refused the line of the last handler.\<close>

lemma scrape_on_raises_from_last_print:
  assumes "fst (scrape_and_ingest_csv_on con env url child_dir t w) = Raises e"
  shows "\<exists>e0. fst (scrape_body_on con env url child_dir t w) = Raises e0
            \<and> con (''Unexpected error for URL '' @ url @ '': '' @ exn_msg e0) = Some e"
proof (cases "scrape_body_on con env url child_dir t w")
  case (Pair r w')
  show ?thesis
  proof (cases r)
    case (Returns rc)
    with Pair assms show ?thesis by (simp add: scrape_and_ingest_csv_on_def)
  next
    case (Raises e0)
    with Pair assms show ?thesis
      by (auto simp: scrape_and_ingest_csv_on_def print_then_def split: option.splits)
  qed
qed

text \<open>For a filename \<open>T.csv\<close> with no \<^verbatim>\<open>/\<close> and no \<^verbatim>\<open>.csv\<close> in \<open>T\<close>, the sheet name is
  \<open>T\<close>, the filename with the extension stripped from its end.\<close>

lemma sheet_name_of_plain_stem:
  assumes "CHR ''/'' \<notin> set T" and "\<forall>i. take 4 (drop i T) \<noteq> ''.csv''"
  shows "sheet_name_of (path_join d (T @ ''.csv'')) = T"
    and "spec_strip_extension ''.csv'' (T @ ''.csv'') = T"
proof -
  from assms(1) have "basename (T @ ''.csv'') = T @ ''.csv''"
    by (intro basename_no_slash) auto
  with assms(2) show "sheet_name_of (path_join d (T @ ''.csv'')) = T"
    by (simp add: sheet_name_of_path_join str_replace_csv_stem)
  show "spec_strip_extension ''.csv'' (T @ ''.csv'') = T"
    by (simp add: spec_strip_extension_def)
qed

text \<open>When no key of \<^verbatim>\<open>sheets\<close> is empty, the workbook's sheets carry the keys.\<close>

lemma xlsx_sheets_enumerate:
  "\<forall>s\<in>set sheets. fst s \<noteq> [] \<Longrightarrow>
   map (\<lambda>is. (xlsx_sheet_name (fst is) (fst (snd is)), to_excel (snd (snd is)) False))
     (enumerate k sheets)
   = map (\<lambda>s. (fst s, to_excel (snd s) False)) sheets"
  by (induction sheets arbitrary: k) (simp_all add: xlsx_sheet_name_def)

lemma xlsx_sheets_named:
  "\<forall>s\<in>set sheets. fst s \<noteq> [] \<Longrightarrow>
   xlsx_sheets sheets = map (\<lambda>s. (fst s, to_excel (snd s) False)) sheets"
  unfolding xlsx_sheets_def by (rule xlsx_sheets_enumerate)

section \<open>The claims\<close>



text \<open>
  C2. The claim puts every response with status 200 and a parseable body into one of two
  classes: tradesTable absent or empty, header mapping empty or row sequence empty give
  the missing-fields code, anything else goes on to the writer. On the body
  \<^verbatim>\<open>{"data": null}\<close>, which has no tradesTable section, the function returns neither:
  \<^verbatim>\<open>data.get("data", {})\<close> is \<^verbatim>\<open>None\<close>, the next \<^verbatim>\<open>.get\<close> raises, and the result
  is \<^verbatim>\<open>ERROR_UNKNOWN\<close>.
\<close>

theorem scrape_null_data_is_unknown:
  "fst (scrape_and_ingest_csv env_null_data ''u'' ''out'' ''ZZZZ'' w0) = Returns ERROR_UNKNOWN"
  by (simp add: scrape_and_ingest_csv_def scrape_body_def fetch_stage_def extract_stage_def
        env_null_data_def env0_def)

text \<open>
  C3. The claim says that no exception leaves \<^verbatim>\<open>scrape_and_ingest_csv\<close>. One does, when the
  console refuses the lines: with a response of status 404, a URL with the two bytes of
  the letter E with an acute accent and a console that encodes ASCII only, the
  \<^verbatim>\<open>print\<close> of line 60 raises \<^verbatim>\<open>UnicodeEncodeError\<close>, the last handler catches it, and its own
  \<^verbatim>\<open>print\<close> of line 104, which names the URL again, raises outside every handler. On a
  closed console the same happens for every URL.
\<close>

theorem scrape_print_failure_propagates:
  "fst (scrape_and_ingest_csv_on ascii_console env_404 url_accent ''out'' ticker_accent w0)
     = Raises (Exn UnicodeEncodeError ''ordinal not in range(128)'')
   \<and> fst (scrape_and_ingest_csv_on closed_console env_404 ''u'' ''out'' ''AAPL'' w0)
     = Raises (Exn ValueError ''I/O operation on closed file.'')"
  by (simp add: scrape_and_ingest_csv_on_def scrape_body_on_def fetch_stage_on_def
        print_then_def env_404_def env0_def ascii_console_def closed_console_def
        url_accent_def isinstance_def)

text \<open>
  C4. Whenever \<^verbatim>\<open>scrape_and_ingest_csv\<close> returns \<^verbatim>\<open>SUCCESS\<close>, every row \<open>rs ! i\<close> of the
  response is a dictionary and has its own data record in the file (none is skipped);
  that record has one field per key of the header mapping (no column is omitted); and
  where the row lacks the \<open>j\<close>-th header key, the \<open>j\<close>-th field is the empty string.
\<close>

theorem scrape_missing_key_empty_field:
  assumes "fst (scrape_and_ingest_csv env url child_dir t w) = Returns SUCCESS"
  shows "\<exists>hs rs lines.
           fst (fetch_stage env url w) = Returns (Fetched (PDict hs) (PList rs))
         \<and> files (snd (scrape_and_ingest_csv env url child_dir t w))
               (path_join child_dir (t @ ''.csv'')) = Some (CsvFile (map snd hs # lines))
         \<and> length lines = length rs
         \<and> (\<forall>i<length rs. \<exists>kvs. rs ! i = PDict kvs
               \<and> length (lines ! (length rs - Suc i)) = length hs
               \<and> (\<forall>j<length hs. map_of kvs (fst (hs ! j)) = None
                     \<longrightarrow> lines ! (length rs - Suc i) ! j = PStr ''''))"
proof -
  from scrape_success_written [OF assms] obtain hs rs lines where
    a: "fst (fetch_stage env url w) = Returns (Fetched (PDict hs) (PList rs))"
    and hs: "hs \<noteq> []"
    and b: "map Inr lines = map (\<lambda>row. row_values row (map fst hs)) (rev rs)"
    and c: "files (snd (scrape_and_ingest_csv env url child_dir t w))
               (path_join child_dir (t @ ''.csv'')) = Some (CsvFile (map snd hs # lines))"
    by blast
  from b have "length (map Inr lines :: (exn + pyval list) list)
      = length (map (\<lambda>row. row_values row (map fst hs)) (rev rs))" by simp
  then have len: "length lines = length rs" by simp
  have "\<exists>kvs. rs ! i = PDict kvs
               \<and> length (lines ! (length rs - Suc i)) = length hs
               \<and> (\<forall>j<length hs. map_of kvs (fst (hs ! j)) = None
                     \<longrightarrow> lines ! (length rs - Suc i) ! j = PStr '''')"
    if i: "i < length rs" for i
  proof -
    let ?k = "length rs - Suc i"
    from i have k: "?k < length rs" by simp
    from b have "map Inr lines ! ?k = map (\<lambda>row. row_values row (map fst hs)) (rev rs) ! ?k"
      by simp
    with k len have "Inr (lines ! ?k) = row_values (rev rs ! ?k) (map fst hs)" by simp
    also from i have "rev rs ! ?k = rs ! i" by (simp add: rev_nth)
    finally have rv: "row_values (rs ! i) (map fst hs) = Inr (lines ! ?k)" by simp
    from row_values_is_dict [OF rv] hs obtain kvs where kvs: "rs ! i = PDict kvs" by auto
    from rv kvs have eq: "lines ! ?k
        = map (\<lambda>k. case map_of kvs k of None \<Rightarrow> PStr '''' | Some v \<Rightarrow> v) (map fst hs)"
      by (simp add: row_values_dict)
    then have "length (lines ! ?k) = length hs" by simp
    moreover from eq have "\<forall>j<length hs. map_of kvs (fst (hs ! j)) = None
                     \<longrightarrow> lines ! ?k ! j = PStr ''''" by simp
    ultimately show ?thesis using kvs by blast
  qed
  with a c len show ?thesis by blast
qed

theorem scrape_missing_key_empty_field_witness:
  "fst (scrape_and_ingest_csv env0 ''u'' ''out'' ''AAPL'' w0) = Returns SUCCESS
   \<and> files (snd (scrape_and_ingest_csv env0 ''u'' ''out'' ''AAPL'' w0)) ''out/AAPL.csv''
       = Some (CsvFile [[PStr ''Date'', PStr ''Close/Last''],
                        [PStr ''01/02/2024'', PStr ''''],
                        [PStr ''01/03/2024'', PStr ''$2'']])
   \<and> (\<exists>hs rs lines.
           fst (fetch_stage env0 ''u'' w0) = Returns (Fetched (PDict hs) (PList rs))
         \<and> files (snd (scrape_and_ingest_csv env0 ''u'' ''out'' ''AAPL'' w0))
               (path_join ''out'' (''AAPL'' @ ''.csv'')) = Some (CsvFile (map snd hs # lines))
         \<and> length lines = length rs
         \<and> (\<forall>i<length rs. \<exists>kvs. rs ! i = PDict kvs
               \<and> length (lines ! (length rs - Suc i)) = length hs
               \<and> (\<forall>j<length hs. map_of kvs (fst (hs ! j)) = None
                     \<longrightarrow> lines ! (length rs - Suc i) ! j = PStr '''')))"
  using scrape_missing_key_empty_field [of env0 "''u''" "''out''" "''AAPL''" w0]
  by (simp add: scrape_env0)










text \<open>
  C9. The claim names the sheet by the filename with the extension stripped from its end.
  For the successfully read filename \<^verbatim>\<open>AAPL.csv.old.csv\<close> that is \<^verbatim>\<open>AAPL.csv.old\<close>, but
  the sheet is named \<^verbatim>\<open>AAPL.old\<close>: \<^verbatim>\<open>str.replace\<close> removes every occurrence of
  \<^verbatim>\<open>.csv\<close>, not the one at the end alone.
\<close>

theorem sheet_name_not_suffix_stripped:
  "read_ok env0 w_run ''out'' ''AAPL.csv.old.csv''
   \<and> map fst (collected_sheets env0 ''out'' [''AAPL.csv.old.csv''] w_run) = [''AAPL.old'']
   \<and> files (snd (combine_csvs_to_excel env0 ''out'' [''AAPL.csv.old.csv''] ''out/c.xlsx'' w_run))
         ''out/c.xlsx'' = Some (Workbook [(''AAPL.old'', [[PStr ''Date'']])])
   \<and> spec_strip_extension ''.csv'' ''AAPL.csv.old.csv'' = ''AAPL.csv.old''
   \<and> map fst (collected_sheets env0 ''out'' [''AAPL.csv.old.csv''] w_run)
       \<noteq> [spec_strip_extension ''.csv'' ''AAPL.csv.old.csv'']"
proof -
  have col: "collected_sheets env0 ''out'' [''AAPL.csv.old.csv''] w_run
      = [(''AAPL.old'', \<lparr>columns = [PStr ''Date''], data_rows = []\<rparr>)]"
    by (simp add: collected_sheets_def path_exists_def pd_read_csv_def path_join_def w_run_def
          env0_def sheet_name_of_def basename_def str_replace.simps)
  have nf: "excel_fault env0 p s = None" for p s by (simp add: env0_def)
  have wb: "files (snd (combine_csvs_to_excel env0 ''out'' [''AAPL.csv.old.csv''] ''out/c.xlsx''
                          w_run)) ''out/c.xlsx'' = Some (Workbook [(''AAPL.old'', [[PStr ''Date'']])])"
    by (simp add: combine_unfold col nf xlsx_sheets_def xlsx_sheet_name_def to_excel_def
          del: read_sheets.simps)
  have b: "spec_strip_extension ''.csv'' ''AAPL.csv.old.csv'' = ''AAPL.csv.old''"
    by (simp add: spec_strip_extension_def)
  show ?thesis by (simp add: read_ok_w_run col wb b)
qed



end
